theory Spec2Isabelle
  imports Main
begin

section \<open>The content service of the CMS API\<close>

text \<open>
  A shallow embedding of \<^verbatim>\<open>cms-api/src/modules/content/content.service.ts\<close>: the class
  \<^verbatim>\<open>ContentService\<close> over three mongoose models (working content, content versions,
  published content). Every method becomes a function that takes the database and returns
  its result together with the database it leaves behind; a rejected promise or a thrown
  exception is the left summand of the result.
\<close>

subsection \<open>Documents\<close>

type_synonym oid = string

text \<open>
  A \<^verbatim>\<open>Date\<close> is its number of milliseconds since the epoch; the clock of the server never
  reads before the epoch, so the number is a natural number.
\<close>

type_synonym date = nat

text \<open>
  Modelled from the spec: the interfaces of \<^verbatim>\<open>content.model.ts\<close> (\<^verbatim>\<open>RefContent\<close>,
  \<^verbatim>\<open>IContent\<close>, \<^verbatim>\<open>IContentVersion\<close>, \<^verbatim>\<open>IPublishedContent\<close>) are imported by the service and
  not part of the sources at hand. The fields are the ones the service reads and writes,
  typed as section 3 of the specification gives them. A nullable field is an option;
  \<open>doc_id\<close> is the \<^verbatim>\<open>_id\<close> of the document.
\<close>

record RefContent =
  content :: oid
  refPath :: string

record Content =
  doc_id :: oid
  name :: string
  properties :: string
  parentId :: "oid option"
  parentPath :: "string option"
  ancestors :: "oid list"
  childItems :: "RefContent list"
  publishedChildItems :: "RefContent list"
  hasChildren :: bool
  isPublished :: bool
  isDirty :: bool
  created :: "date option"
  changed :: "date option"
  published :: "date option"
  deleted :: "date option"
  isDeleted :: bool

record ContentVersion = Content +
  contentId :: oid

record PublishedContent = ContentVersion +
  contentVersionId :: oid

text \<open>
  What a promise of the service can reject with: \<open>TypeError\<close> is what JavaScript throws
  when a property of \<^verbatim>\<open>null\<close> is read or written, \<open>DuplicateKey\<close> what the store answers
  to the insert of a document whose id is taken, \<open>NotFound\<close> the error kind the
  specification names for a missing document.
\<close>

datatype error = NotFound | TypeError | DuplicateKey

subsection \<open>The database\<close>

text \<open>
  The three collections behind \<^verbatim>\<open>contentModel\<close>, \<^verbatim>\<open>contentVersionModel\<close> and
  \<^verbatim>\<open>publishedContentModel\<close>, each a list of documents in insertion order. The clock and
  the generator of object ids are part of the environment: \<open>clock db k\<close> is what the
  \<open>k\<close>-th evaluation of \<^verbatim>\<open>new Date()\<close> returns and \<open>objectIds db k\<close> what the \<open>k\<close>-th
  \<^verbatim>\<open>new mongoose.Types.ObjectId()\<close> returns; \<open>ticks\<close> and \<open>made\<close> count the evaluations
  so far.
\<close>

record Db =
  contentModel :: "Content list"
  contentVersionModel :: "ContentVersion list"
  publishedContentModel :: "PublishedContent list"
  clock :: "nat \<Rightarrow> date"
  ticks :: nat
  objectIds :: "nat \<Rightarrow> oid"
  made :: nat

definition newDate :: "Db \<Rightarrow> date \<times> Db" where
  "newDate db = (clock db (ticks db), db\<lparr>ticks := Suc (ticks db)\<rparr>)"

definition newObjectId :: "Db \<Rightarrow> oid \<times> Db" where
  "newObjectId db = (objectIds db (made db), db\<lparr>made := Suc (made db)\<rparr>)"

text \<open>
  The operations of a mongoose model that the service calls, on one collection, with the
  contract section 6 of the specification gives the document store.
  \<^item> \<^verbatim>\<open>findOne({ _id: id })\<close>: the first document with that id, \<^verbatim>\<open>null\<close> when there is
    none; every document has an id, so a \<^verbatim>\<open>null\<close> id selects nothing.
  \<^item> \<^verbatim>\<open>doc.save()\<close> on a document that was read from the collection (\<open>save\<close>): the
    document of that id is replaced by it.
  \<^item> \<^verbatim>\<open>doc.save()\<close> on a document that was just built (\<open>saveNew\<close>): an insert at the end
    of the collection; when the id is taken the store rejects it with a duplicate key
    and the collection stays as it is.
  \<^item> \<^verbatim>\<open>findOneAndDelete({ _id: id })\<close>: removes the first document with that id and
    returns it, \<^verbatim>\<open>null\<close> when there is none.
  \<^item> \<^verbatim>\<open>updateMany(conditions, updateFields)\<close>: patches every document that meets the
    conditions and reports how many did.
\<close>

definition findOne :: "oid option \<Rightarrow> 'a Content_scheme list \<Rightarrow> 'a Content_scheme option" where
  "findOne i rows = (case i of None \<Rightarrow> None | Some k \<Rightarrow> find (\<lambda>r. doc_id r = k) rows)"

fun save :: "'a Content_scheme \<Rightarrow> 'a Content_scheme list \<Rightarrow> 'a Content_scheme list" where
  "save d [] = [d]"
| "save d (r # rs) = (if doc_id r = doc_id d then d # rs else r # save d rs)"

definition saveNew ::
  "'a Content_scheme \<Rightarrow> 'a Content_scheme list \<Rightarrow> error + 'a Content_scheme list" where
  "saveNew d rows =
     (if doc_id d \<in> doc_id ` set rows then Inl DuplicateKey else Inr (rows @ [d]))"

fun findOneAndDelete ::
  "oid \<Rightarrow> 'a Content_scheme list \<Rightarrow> 'a Content_scheme option \<times> 'a Content_scheme list" where
  "findOneAndDelete k [] = (None, [])"
| "findOneAndDelete k (r # rs) =
     (if doc_id r = k then (Some r, rs)
      else (case findOneAndDelete k rs of (d, rs') \<Rightarrow> (d, r # rs')))"

definition updateMany ::
  "('a Content_scheme \<Rightarrow> bool) \<Rightarrow> ('a Content_scheme \<Rightarrow> 'a Content_scheme) \<Rightarrow>
   'a Content_scheme list \<Rightarrow> nat \<times> 'a Content_scheme list" where
  "updateMany conditions updateFields rows =
     (length (filter conditions rows),
      map (\<lambda>r. if conditions r then updateFields r else r) rows)"

text \<open>
  A document that was read saves into the collection of the model it was read from.
\<close>

definition inContentModel :: "(Content list \<Rightarrow> Content list) \<Rightarrow> Db \<Rightarrow> Db" where
  "inContentModel f db = db\<lparr>contentModel := f (contentModel db)\<rparr>"

definition inPublishedContentModel ::
  "(PublishedContent list \<Rightarrow> PublishedContent list) \<Rightarrow> Db \<Rightarrow> Db" where
  "inPublishedContentModel f db = db\<lparr>publishedContentModel := f (publishedContentModel db)\<rparr>"

subsection \<open>JavaScript values\<close>

text \<open>
  A string is falsy when it is \<^verbatim>\<open>null\<close> or empty. A template literal writes \<^verbatim>\<open>null\<close> as
  the four letters \<^verbatim>\<open>null\<close>. The relational operators turn \<^verbatim>\<open>null\<close> into the number 0 and a
  date into its milliseconds.
\<close>

definition truthy :: "string option \<Rightarrow> bool" where
  "truthy s = (case s of None \<Rightarrow> False | Some t \<Rightarrow> t \<noteq> [])"

definition template :: "string option \<Rightarrow> string" where
  "template s = (case s of None \<Rightarrow> ''null'' | Some t \<Rightarrow> t)"

definition toNumber :: "date option \<Rightarrow> nat" where
  "toNumber d = (case d of None \<Rightarrow> 0 | Some t \<Rightarrow> t)"

definition date_gt :: "date option \<Rightarrow> date option \<Rightarrow> bool" where
  "date_gt a b = (toNumber b < toNumber a)"

text \<open>
  A regular expression is its source text. The service builds one pattern only: a caret
  followed by a parent path (ids between commas), an id and a comma. Ids are object ids,
  so the text after the caret has no metacharacter and stands for itself: with the caret
  the test is a prefix test, without it a substring test.
\<close>

fun startsWith :: "string \<Rightarrow> string \<Rightarrow> bool" where
  "startsWith [] s = True"
| "startsWith (p # ps) [] = False"
| "startsWith (p # ps) (c # cs) = (p = c \<and> startsWith ps cs)"

fun containsText :: "string \<Rightarrow> string \<Rightarrow> bool" where
  "containsText lit [] = (lit = [])"
| "containsText lit (c # cs) = (startsWith lit (c # cs) \<or> containsText lit cs)"

definition regExpTest :: "string \<Rightarrow> string \<Rightarrow> bool" where
  "regExpTest source s =
     (case source of
        [] \<Rightarrow> True
      | c # lit \<Rightarrow> if c = CHR ''^'' then startsWith lit s else containsText (c # lit) s)"

text \<open>The condition \<^verbatim>\<open>{ parentPath: { $regex: r } }\<close>: a \<^verbatim>\<open>null\<close> path matches nothing.\<close>

definition parentPathRegex :: "string \<Rightarrow> 'a Content_scheme \<Rightarrow> bool" where
  "parentPathRegex source r =
     (case parentPath r of None \<Rightarrow> False | Some s \<Rightarrow> regExpTest source s)"

subsection \<open>Reading by id\<close>

text \<open>
  Modelled from the spec: \<^verbatim>\<open>getModelById\<close> is a method of \<^verbatim>\<open>BaseService\<close>
  (\<^verbatim>\<open>shared/base.service.ts\<close>), which the service extends and which is not part of the
  sources at hand. The specification takes the generic read by id of the base class as
  the store contract \<^verbatim>\<open>findById(id) -> Record?\<close> of its section 6, and its create flow as
  producing a \<^verbatim>\<open>null\<close> parent for a \<^verbatim>\<open>null\<close> id: the read returns the document of the
  content collection with that id, \<^verbatim>\<open>null\<close> when there is none.
\<close>

definition getModelById :: "Db \<Rightarrow> oid option \<Rightarrow> Content option" where
  "getModelById db i = findOne i (contentModel db)"

text \<open>
  \<^verbatim>\<open>populate({ path, match: { isDeleted: false } })\<close> replaces the reference of every child
  item by the document it names in the model its \<^verbatim>\<open>refPath\<close> names, and by \<^verbatim>\<open>null\<close> when
  there is no such document or it does not meet the match. The models the references
  point into (pages, blocks, media and their published forms) are the parameter
  \<open>models\<close>.
\<close>

definition populate ::
  "(string \<Rightarrow> oid \<Rightarrow> 'd Content_scheme option) \<Rightarrow> RefContent list \<Rightarrow>
   ('d Content_scheme option \<times> string) list" where
  "populate models items =
     map (\<lambda>i. (case models (refPath i) (content i) of
                  None \<Rightarrow> None
                | Some d \<Rightarrow> if isDeleted d = False then Some d else None,
                refPath i)) items"

definition getPopulatedContentById ::
  "(string \<Rightarrow> oid \<Rightarrow> 'd Content_scheme option) \<Rightarrow> Db \<Rightarrow> oid option \<Rightarrow>
   (Content \<times> ('d Content_scheme option \<times> string) list) option" where
  "getPopulatedContentById models db i =
     (let i' = (if truthy i then i else None)
      in map_option (\<lambda>c. (c, populate models (childItems c))) (findOne i' (contentModel db)))"

definition getPopulatedPublishedContentById ::
  "(string \<Rightarrow> oid \<Rightarrow> 'd Content_scheme option) \<Rightarrow> Db \<Rightarrow> oid option \<Rightarrow>
   (PublishedContent \<times> ('d Content_scheme option \<times> string) list) option" where
  "getPopulatedPublishedContentById models db i =
     (let i' = (if truthy i then i else None)
      in map_option (\<lambda>c. (c, populate models (publishedChildItems c)))
           (findOne i' (publishedContentModel db)))"

subsection \<open>Creating content\<close>

text \<open>
  The new content is a document that was just built: its \<^verbatim>\<open>save()\<close> is an insert.
\<close>

definition createContent ::
  "Db \<Rightarrow> Content \<Rightarrow> Content option \<Rightarrow> (error + Content) \<times> Db" where
  "createContent db newContent parentContent =
     (case newDate db of (t1, db1) \<Rightarrow>
      (case newDate db1 of (t2, db2) \<Rightarrow>
       let c0 = newContent\<lparr>created := Some t1, changed := Some t2,
                  parentId := (case parentContent of Some p \<Rightarrow> Some (doc_id p) | None \<Rightarrow> None)\<rparr>;
           c1 = (case parentContent of
                   Some p \<Rightarrow>
                     c0\<lparr>parentPath :=
                          Some (if truthy (parentPath p)
                                then template (parentPath p) @ doc_id p @ '',''
                                else '','' @ doc_id p @ '',''),
                        ancestors := ancestors p @ [doc_id p]\<rparr>
                 | None \<Rightarrow> c0\<lparr>parentPath := None, ancestors := []\<rparr>)
       in (case saveNew c1 (contentModel db2) of
             Inl e \<Rightarrow> (Inl e, db2)
           | Inr rows \<Rightarrow> (Inr c1, db2\<lparr>contentModel := rows\<rparr>))))"

definition executeCreateContentFlow :: "Db \<Rightarrow> Content \<Rightarrow> (error + Content) \<times> Db" where
  "executeCreateContentFlow db c =
     (let parentContent = getModelById db (parentId c)
      in case createContent db c parentContent of
           (Inl e, db1) \<Rightarrow> (Inl e, db1)
         | (Inr savedContent, db1) \<Rightarrow> (Inr savedContent, db1))"

text \<open>
  \<^verbatim>\<open>updateHasChildren\<close> changes the document it is given in place: the result is the
  boolean it returns together with the document after the call.
\<close>

definition updateHasChildren ::
  "Db \<Rightarrow> Content option \<Rightarrow> (error + bool \<times> Content option) \<times> Db" where
  "updateHasChildren db c =
     (case c of
        None \<Rightarrow> (Inr (False, None), db)
      | Some d \<Rightarrow>
          if hasChildren d then (Inr (True, Some d), db)
          else (case newDate db of (t, db1) \<Rightarrow>
                let savedContent = d\<lparr>changed := Some t, hasChildren := True\<rparr>
                in (Inr (hasChildren savedContent, Some savedContent),
                    inContentModel (save savedContent) db1)))"

subsection \<open>Updating and publishing\<close>

text \<open>
  Modelled from the spec: the names of the models that \<^verbatim>\<open>page.model.ts\<close>,
  \<^verbatim>\<open>block.model.ts\<close>, \<^verbatim>\<open>media.model.ts\<close> and their published counterparts export are not
  part of the sources at hand. The specification writes the kinds as page, block, media,
  publishedPage, publishedBlock and publishedMedia.
\<close>

definition cmsPage :: string where "cmsPage = ''page''"
definition cmsBlock :: string where "cmsBlock = ''block''"
definition cmsMedia :: string where "cmsMedia = ''media''"
definition cmsPublishedPage :: string where "cmsPublishedPage = ''publishedPage''"
definition cmsPublishedBlock :: string where "cmsPublishedBlock = ''publishedBlock''"
definition cmsPublishedMedia :: string where "cmsPublishedMedia = ''publishedMedia''"

definition getPublishedRefPath :: "string \<Rightarrow> string" where
  "getPublishedRefPath p =
     (if p = cmsPage then cmsPublishedPage
      else if p = cmsBlock then cmsPublishedBlock
      else if p = cmsMedia then cmsPublishedMedia
      else p)"

definition getPublishedChildItems :: "RefContent list \<Rightarrow> RefContent list" where
  "getPublishedChildItems currentItems =
     map (\<lambda>item. \<lparr>content = content item, refPath = getPublishedRefPath (refPath item)\<rparr>)
       currentItems"

text \<open>
  \<^verbatim>\<open>updateContent\<close> is handed whatever the read by id returned. An assignment evaluates
  its right-hand side before it stores: on a \<^verbatim>\<open>null\<close> document the date is taken and the
  store into the property throws.
\<close>

definition updateContent :: "Db \<Rightarrow> Content option \<Rightarrow> Content \<Rightarrow> (error + Content) \<times> Db" where
  "updateContent db currentContent pageObj =
     (case newDate db of (t, db1) \<Rightarrow>
      (case currentContent of
         None \<Rightarrow> (Inl TypeError, db1)
       | Some c \<Rightarrow>
           let c1 = c\<lparr>changed := Some t, name := name pageObj,
                      properties := properties pageObj, childItems := childItems pageObj,
                      publishedChildItems := getPublishedChildItems (childItems pageObj)\<rparr>
           in (Inr c1, inContentModel (save c1) db1)))"

definition publishContent :: "Db \<Rightarrow> Content \<Rightarrow> Content \<times> Db" where
  "publishContent db currentContent =
     (case newDate db of (t, db1) \<Rightarrow>
      let c1 = currentContent\<lparr>isPublished := True, published := Some t\<rparr>
      in (c1, inContentModel (save c1) db1))"

text \<open>
  \<^verbatim>\<open>toObject()\<close> spread into a version: every field of the content, then the two extra.
  The version and the published content are documents that were just built: their
  \<^verbatim>\<open>save()\<close> is an insert.
\<close>

definition createPageVersion :: "Db \<Rightarrow> Content \<Rightarrow> (error + ContentVersion) \<times> Db" where
  "createPageVersion db currentContent =
     (case newObjectId db of (i, db1) \<Rightarrow>
      let newContentVersion =
            \<lparr>doc_id = i, name = name currentContent,
             properties = properties currentContent,
             parentId = parentId currentContent,
             parentPath = parentPath currentContent,
             ancestors = ancestors currentContent,
             childItems = childItems currentContent,
             publishedChildItems = publishedChildItems currentContent,
             hasChildren = hasChildren currentContent,
             isPublished = isPublished currentContent,
             isDirty = isDirty currentContent,
             created = created currentContent,
             changed = changed currentContent,
             published = published currentContent,
             deleted = deleted currentContent,
             isDeleted = isDeleted currentContent,
             contentId = doc_id currentContent\<rparr>
      in (case saveNew newContentVersion (contentVersionModel db1) of
            Inl e \<Rightarrow> (Inl e, db1)
          | Inr rows \<Rightarrow> (Inr newContentVersion, db1\<lparr>contentVersionModel := rows\<rparr>)))"

definition createPublishedContent ::
  "Db \<Rightarrow> Content \<Rightarrow> oid \<Rightarrow> (error + PublishedContent) \<times> Db" where
  "createPublishedContent db currentContent versionId =
     (case findOneAndDelete (doc_id currentContent) (publishedContentModel db) of
        (deletedContent, rows) \<Rightarrow>
      let db1 = db\<lparr>publishedContentModel := rows\<rparr>;
          newPublishedPage =
            \<lparr>doc_id = doc_id currentContent, name = name currentContent,
             properties = properties currentContent,
             parentId = parentId currentContent,
             parentPath = parentPath currentContent,
             ancestors = ancestors currentContent,
             childItems = childItems currentContent,
             publishedChildItems = publishedChildItems currentContent,
             hasChildren = hasChildren currentContent,
             isPublished = isPublished currentContent,
             isDirty = isDirty currentContent,
             created = created currentContent,
             changed = changed currentContent,
             published = published currentContent,
             deleted = deleted currentContent,
             isDeleted = isDeleted currentContent,
             contentId = doc_id currentContent, contentVersionId = versionId\<rparr>
      in (case saveNew newPublishedPage (publishedContentModel db1) of
            Inl e \<Rightarrow> (Inl e, db1)
          | Inr rows' \<Rightarrow> (Inr newPublishedPage, db1\<lparr>publishedContentModel := rows'\<rparr>)))"

text \<open>
  The three steps of the publish sub-flow are awaited one after the other: a step that
  rejects ends the flow, with what the steps before it wrote left in place.
\<close>

definition executePublishContentFlow ::
  "Db \<Rightarrow> Content \<Rightarrow> (error + PublishedContent) \<times> Db" where
  "executePublishContentFlow db currentContent =
     (case publishContent db currentContent of (updatedContent, db1) \<Rightarrow>
      (case createPageVersion db1 updatedContent of
         (Inl e, db2) \<Rightarrow> (Inl e, db2)
       | (Inr pageVersion, db2) \<Rightarrow>
           createPublishedContent db2 updatedContent (doc_id pageVersion)))"

text \<open>
  \<^verbatim>\<open>updateAndPublishContent\<close> resolves to the working content or, after a publish, to the
  published content; it resolves to \<^verbatim>\<open>null\<close> when the read by id found nothing and
  nothing dereferenced it.
\<close>

datatype document = Working Content | Published PublishedContent

definition updateAndPublishContent ::
  "Db \<Rightarrow> oid \<Rightarrow> Content \<Rightarrow> (error + document option) \<times> Db" where
  "updateAndPublishContent db i contentObj =
     (let loaded = getModelById db (Some i)
      in case (if isDirty contentObj
               then (case updateContent db loaded contentObj of
                       (Inl e, db1) \<Rightarrow> (Inl e, db1)
                     | (Inr c, db1) \<Rightarrow> (Inr (Some c), db1))
               else (Inr loaded, db)) of
           (Inl e, db1) \<Rightarrow> (Inl e, db1)
         | (Inr currentContent, db1) \<Rightarrow>
             if isPublished contentObj
             then (case currentContent of
                     None \<Rightarrow> (Inl TypeError, db1)
                   | Some c \<Rightarrow>
                       if published c = None \<or> date_gt (changed c) (published c)
                       then (case executePublishContentFlow db1 c of
                               (Inl e, db2) \<Rightarrow> (Inl e, db2)
                             | (Inr p, db2) \<Rightarrow> (Inr (Some (Published p)), db2))
                       else (Inr (Some (Working c)), db1))
             else (Inr (map_option Working currentContent), db1))"

subsection \<open>Deleting\<close>

text \<open>
  \<^verbatim>\<open>softDeleteContent\<close> marks the document it is given and saves it into the model the
  document belongs to (the parameter \<open>inModel\<close>); it is called on the working content and
  on what \<^verbatim>\<open>findOne\<close> returned for the published content.
\<close>

definition softDeleteContent ::
  "(('a Content_scheme list \<Rightarrow> 'a Content_scheme list) \<Rightarrow> Db \<Rightarrow> Db) \<Rightarrow> Db \<Rightarrow>
   'a Content_scheme option \<Rightarrow> (error + 'a Content_scheme) \<times> Db" where
  "softDeleteContent inModel db currentContent =
     (case newDate db of (t, db1) \<Rightarrow>
      (case currentContent of
         None \<Rightarrow> (Inl TypeError, db1)
       | Some c \<Rightarrow>
           let c1 = c\<lparr>deleted := Some t, isDeleted := True\<rparr>
           in (Inr c1, inModel (save c1) db1)))"

definition startWithParentPathRegExp :: "Content \<Rightarrow> string" where
  "startWithParentPathRegExp currentContent =
     ''^'' @ template (parentPath currentContent) @ doc_id currentContent @ '',''"

definition softDeleteContentChildren :: "Db \<Rightarrow> Content \<Rightarrow> nat \<times> Db" where
  "softDeleteContentChildren db currentContent =
     (let conditions = parentPathRegex (startWithParentPathRegExp currentContent)
      in case newDate db of (t, db1) \<Rightarrow>
         case updateMany conditions (\<lambda>r. r\<lparr>isDeleted := True, deleted := Some t\<rparr>)
                (contentModel db1) of
           (n, rows) \<Rightarrow> (n, db1\<lparr>contentModel := rows\<rparr>))"

text \<open>
  The three calls of \<^verbatim>\<open>Promise.all\<close> start in the order of the array. The first marks
  the content and issues its save (on \<^verbatim>\<open>null\<close> it throws while the array is built, before
  anything else starts). The second issues its \<^verbatim>\<open>findOne\<close> and waits; the third builds
  its pattern, takes its date and issues the bulk update. Only then does the second go on
  with what \<^verbatim>\<open>findOne\<close> returned. The save of the content touches one document and the
  bulk update never matches that document, and the published content is another
  collection: the writes do not depend on the order in which the store serves them. A
  rejection of the second call comes after the writes of the other two were issued.
\<close>

definition executeDeleteContentFlow :: "Db \<Rightarrow> oid \<Rightarrow> (error + Content \<times> nat) \<times> Db" where
  "executeDeleteContentFlow db i =
     (let currentContent = getModelById db (Some i)
      in case softDeleteContent inContentModel db currentContent of
           (Inl e, db1) \<Rightarrow> (Inl e, db1)
         | (Inr r0, db1) \<Rightarrow>
             let publishedPage = findOne (Some (doc_id r0)) (publishedContentModel db1)
             in (case softDeleteContentChildren db1 r0 of (r2, db2) \<Rightarrow>
                 (case softDeleteContent inPublishedContentModel db2 publishedPage of
                    (Inl e, db3) \<Rightarrow> (Inl e, db3)
                  | (Inr r1, db3) \<Rightarrow> (Inr (r0, r2), db3))))"

subsection \<open>Example documents\<close>

text \<open>
  Concrete documents and databases on which the flows are run below: \<open>blank i pp\<close> is a
  fresh working document with id \<open>i\<close> and parent path \<open>pp\<close>, \<open>publishedOf c v\<close> the published
  row of \<open>c\<close> for the version \<open>v\<close>, and \<open>exampleDb cs ps\<close> a database holding the working
  documents \<open>cs\<close> and the published rows \<open>ps\<close>, whose clock reads 100, 101, ... and whose
  generator of object ids returns v, vv, ...
\<close>

definition blank :: "oid \<Rightarrow> string option \<Rightarrow> Content" where
  "blank i pp =
     \<lparr>doc_id = i, name = ''draft'', properties = '''', parentId = None, parentPath = pp,
      ancestors = [], childItems = [], publishedChildItems = [], hasChildren = False,
      isPublished = False, isDirty = False, created = None, changed = None,
      published = None, deleted = None, isDeleted = False\<rparr>"

definition publishedOf :: "Content \<Rightarrow> oid \<Rightarrow> PublishedContent" where
  "publishedOf c v =
     \<lparr>doc_id = doc_id c, name = name c, properties = properties c, parentId = parentId c,
      parentPath = parentPath c, ancestors = ancestors c, childItems = childItems c,
      publishedChildItems = publishedChildItems c, hasChildren = hasChildren c,
      isPublished = isPublished c, isDirty = isDirty c, created = created c,
      changed = changed c, published = published c, deleted = deleted c,
      isDeleted = isDeleted c, contentId = doc_id c, contentVersionId = v\<rparr>"

definition exampleDb :: "Content list \<Rightarrow> PublishedContent list \<Rightarrow> Db" where
  "exampleDb cs ps =
     \<lparr>contentModel = cs, contentVersionModel = [], publishedContentModel = ps,
      clock = (\<lambda>k. 100 + k), ticks = 0,
      objectIds = (\<lambda>k. replicate (Suc k) CHR ''v''), made = 0\<rparr>"

section \<open>Properties\<close>

subsection \<open>The store\<close>

lemma findOne_save: "findOne (Some (doc_id d)) (save d rows) = Some d"
  by (induction rows) (simp_all add: findOne_def)

subsection \<open>The published form of child items\<close>

text \<open>
  C5. For every list of child items, the published form has the same length and the same
  content references in the same order, and the kind of each element goes through the
  table page to publishedPage, block to publishedBlock, media to publishedMedia, any
  other kind staying as it is; the kinds page, block, widget become publishedPage,
  publishedBlock, widget.
\<close>

theorem getPublishedChildItems_rewrite:
  "length (getPublishedChildItems xs) = length xs
   \<and> map content (getPublishedChildItems xs) = map content xs
   \<and> map refPath (getPublishedChildItems xs) =
       map (\<lambda>k. if k = ''page'' then ''publishedPage''
                else if k = ''block'' then ''publishedBlock''
                else if k = ''media'' then ''publishedMedia''
                else k) (map refPath xs)
   \<and> getPublishedChildItems
         [\<lparr>content = ''X'', refPath = ''page''\<rparr>, \<lparr>content = ''Y'', refPath = ''block''\<rparr>,
          \<lparr>content = ''Z'', refPath = ''widget''\<rparr>] =
         [\<lparr>content = ''X'', refPath = ''publishedPage''\<rparr>,
          \<lparr>content = ''Y'', refPath = ''publishedBlock''\<rparr>,
          \<lparr>content = ''Z'', refPath = ''widget''\<rparr>]"
  by (simp add: getPublishedChildItems_def getPublishedRefPath_def cmsPage_def cmsBlock_def
      cmsMedia_def cmsPublishedPage_def cmsPublishedBlock_def cmsPublishedMedia_def o_def)

subsection \<open>Populated reads\<close>

text \<open>
  C9. For a null id and for the empty id, whatever the collections hold,
  \<^verbatim>\<open>getPopulatedContentById\<close> and \<^verbatim>\<open>getPopulatedPublishedContentById\<close> return \<^verbatim>\<open>null\<close>: no
  document is matched.
\<close>

theorem getPopulated_no_id:
  "getPopulatedContentById models db None = None
   \<and> getPopulatedContentById models db (Some '''') = None
   \<and> getPopulatedPublishedContentById models db None = None
   \<and> getPopulatedPublishedContentById models db (Some '''') = None"
  by (simp add: getPopulatedContentById_def getPopulatedPublishedContentById_def truthy_def
      findOne_def)

subsection \<open>The has-children flag\<close>

text \<open>
  C8. \<^verbatim>\<open>updateHasChildren\<close> on no content returns false and changes nothing, without
  failing. On a node whose flag is set it returns true and changes neither the node (its
  \<open>changed\<close> time included) nor the database. Only on a node whose flag is not set does it
  set the flag, take the time into \<open>changed\<close> and save the node; a second call on the
  node it leaves then changes nothing.
\<close>

theorem updateHasChildren_idempotent:
  "updateHasChildren db None = (Inr (False, None), db)
   \<and> (hasChildren c \<longrightarrow> updateHasChildren db (Some c) = (Inr (True, Some c), db))
   \<and> (\<not> hasChildren c \<longrightarrow>
        (\<exists>c' db'. updateHasChildren db (Some c) = (Inr (True, Some c'), db')
           \<and> c' = c\<lparr>changed := Some (clock db (ticks db)), hasChildren := True\<rparr>
           \<and> findOne (Some (doc_id c)) (contentModel db') = Some c'
           \<and> updateHasChildren db' (Some c') = (Inr (True, Some c'), db')))"
proof (intro conjI impI)
  show "updateHasChildren db None = (Inr (False, None), db)"
    by (simp add: updateHasChildren_def)
next
  assume "hasChildren c"
  then show "updateHasChildren db (Some c) = (Inr (True, Some c), db)"
    by (simp add: updateHasChildren_def)
next
  assume no: "\<not> hasChildren c"
  define c' where "c' = c\<lparr>changed := Some (clock db (ticks db)), hasChildren := True\<rparr>"
  define db' where "db' = inContentModel (save c') (db\<lparr>ticks := Suc (ticks db)\<rparr>)"
  have run: "updateHasChildren db (Some c) = (Inr (True, Some c'), db')"
    using no by (simp add: updateHasChildren_def newDate_def c'_def db'_def Let_def)
  have "doc_id c' = doc_id c"
    by (simp add: c'_def)
  then have stored: "findOne (Some (doc_id c)) (contentModel db') = Some c'"
    using findOne_save [of c' "contentModel db"] by (simp add: db'_def inContentModel_def)
  have again: "updateHasChildren db' (Some c') = (Inr (True, Some c'), db')"
    by (simp add: updateHasChildren_def c'_def)
  from run stored again show
    "\<exists>c' db'. updateHasChildren db (Some c) = (Inr (True, Some c'), db')
       \<and> c' = c\<lparr>changed := Some (clock db (ticks db)), hasChildren := True\<rparr>
       \<and> findOne (Some (doc_id c)) (contentModel db') = Some c'
       \<and> updateHasChildren db' (Some c') = (Inr (True, Some c'), db')"
    unfolding c'_def by blast
qed

theorem updateHasChildren_idempotent_witness:
  "updateHasChildren (exampleDb [(blank ''1'' None)\<lparr>hasChildren := True\<rparr>] [])
       (Some ((blank ''1'' None)\<lparr>hasChildren := True\<rparr>)) =
     (Inr (True, Some ((blank ''1'' None)\<lparr>hasChildren := True\<rparr>)),
      exampleDb [(blank ''1'' None)\<lparr>hasChildren := True\<rparr>] [])
   \<and> (\<exists>c' db'.
         updateHasChildren (exampleDb [blank ''1'' None] []) (Some (blank ''1'' None)) =
           (Inr (True, Some c'), db')
         \<and> c' = (blank ''1'' None)\<lparr>changed := Some 100, hasChildren := True\<rparr>
         \<and> findOne (Some ''1'') (contentModel db') = Some c'
         \<and> updateHasChildren db' (Some c') = (Inr (True, Some c'), db'))"
proof -
  have a: "hasChildren ((blank ''1'' None)\<lparr>hasChildren := True\<rparr>)"
    by simp
  have b: "\<not> hasChildren (blank ''1'' None)"
    by (simp add: blank_def)
  from updateHasChildren_idempotent
    [of "exampleDb [(blank ''1'' None)\<lparr>hasChildren := True\<rparr>] []"
        "(blank ''1'' None)\<lparr>hasChildren := True\<rparr>"] a
  have first: "updateHasChildren (exampleDb [(blank ''1'' None)\<lparr>hasChildren := True\<rparr>] [])
       (Some ((blank ''1'' None)\<lparr>hasChildren := True\<rparr>)) =
     (Inr (True, Some ((blank ''1'' None)\<lparr>hasChildren := True\<rparr>)),
      exampleDb [(blank ''1'' None)\<lparr>hasChildren := True\<rparr>] [])"
    by blast
  have now: "clock (exampleDb [blank ''1'' None] []) (ticks (exampleDb [blank ''1'' None] []))
      = 100"
    and key: "doc_id (blank ''1'' None) = ''1''"
    by (simp_all add: exampleDb_def blank_def)
  from updateHasChildren_idempotent [of "exampleDb [blank ''1'' None] []" "blank ''1'' None"] b
  have second: "\<exists>c' db'.
         updateHasChildren (exampleDb [blank ''1'' None] []) (Some (blank ''1'' None)) =
           (Inr (True, Some c'), db')
         \<and> c' = (blank ''1'' None)\<lparr>changed := Some 100, hasChildren := True\<rparr>
         \<and> findOne (Some ''1'') (contentModel db') = Some c'
         \<and> updateHasChildren db' (Some c') = (Inr (True, Some c'), db')"
    unfolding now key by blast
  from first second show ?thesis by blast
qed

subsection \<open>Creating content\<close>

lemma saveNew_fresh: "doc_id d \<notin> doc_id ` set rows \<Longrightarrow> saveNew d rows = Inr (rows @ [d])"
  by (simp add: saveNew_def)

lemma saveNew_taken: "doc_id d \<in> doc_id ` set rows \<Longrightarrow> saveNew d rows = Inl DuplicateKey"
  by (simp add: saveNew_def)

text \<open>
  A new content whose id is taken is rejected with a duplicate key, and the content
  collection stays as it was.
\<close>

lemma createContent_taken:
  assumes "doc_id c \<in> doc_id ` set (contentModel db)"
  shows "fst (createContent db c par) = Inl DuplicateKey"
    and "contentModel (snd (createContent db c par)) = contentModel db"
  using assms
  by (cases par; simp add: createContent_def newDate_def Let_def saveNew_def)+

lemma getModelById_absent:
  assumes "i \<notin> Some ` doc_id ` set (contentModel db)"
  shows "getModelById db i = None"
proof (cases i)
  case None
  then show ?thesis by (simp add: getModelById_def findOne_def)
next
  case (Some k)
  with assms have "\<forall>r \<in> set (contentModel db). doc_id r \<noteq> k"
    by force
  then have "find (\<lambda>r. doc_id r = k) (contentModel db) = None"
    by (simp add: find_None_iff)
  with Some show ?thesis by (simp add: getModelById_def findOne_def)
qed

text \<open>
  C10. For every new content (its id is not taken) whose \<open>parentId\<close> is the id of no
  working document (a null id or a dangling one), the read by id finds no parent and
  \<^verbatim>\<open>executeCreateContentFlow\<close> does not fail: it resolves to the saved node, which is a
  root (its \<open>parentId\<close> and \<open>parentPath\<close> are null and its \<open>ancestors\<close> empty), and the
  content collection afterwards is the one before followed by that node.
\<close>

theorem executeCreateContentFlow_dangling_parent:
  assumes dangling: "parentId c \<notin> Some ` doc_id ` set (contentModel db)"
    and new: "doc_id c \<notin> doc_id ` set (contentModel db)"
  shows "\<exists>saved db'. executeCreateContentFlow db c = (Inr saved, db')
           \<and> parentId saved = None \<and> parentPath saved = None \<and> ancestors saved = []
           \<and> doc_id saved = doc_id c
           \<and> contentModel db' = contentModel db @ [saved]"
proof -
  have none: "getModelById db (parentId c) = None"
    using dangling by (rule getModelById_absent)
  define saved where
    "saved = c\<lparr>created := Some (clock db (ticks db)), changed := Some (clock db (Suc (ticks db))),
               parentId := None, parentPath := None, ancestors := []\<rparr>"
  have key: "doc_id saved = doc_id c"
    by (simp add: saved_def)
  with new have ins: "saveNew saved (contentModel db) = Inr (contentModel db @ [saved])"
    by (simp add: saveNew_fresh)
  have run: "executeCreateContentFlow db c =
      (Inr saved, db\<lparr>ticks := Suc (Suc (ticks db)), contentModel := contentModel db @ [saved]\<rparr>)"
    unfolding executeCreateContentFlow_def createContent_def newDate_def Let_def none
    by (simp add: ins [unfolded saved_def] saved_def)
  have "parentId saved = None \<and> parentPath saved = None \<and> ancestors saved = []"
    by (simp add: saved_def)
  with run key show ?thesis by force
qed

theorem executeCreateContentFlow_dangling_parent_witness:
  "\<exists>saved db'.
     executeCreateContentFlow (exampleDb [blank ''1'' None] [])
       ((blank ''7'' (Some '',x,''))\<lparr>parentId := Some ''404''\<rparr>) = (Inr saved, db')
     \<and> parentId saved = None \<and> parentPath saved = None \<and> ancestors saved = []
     \<and> doc_id saved = ''7''
     \<and> contentModel db' = [blank ''1'' None, saved]"
proof -
  have dangling: "parentId ((blank ''7'' (Some '',x,''))\<lparr>parentId := Some ''404''\<rparr>)
      \<notin> Some ` doc_id ` set (contentModel (exampleDb [blank ''1'' None] []))"
    by (simp add: exampleDb_def blank_def)
  have new: "doc_id ((blank ''7'' (Some '',x,''))\<lparr>parentId := Some ''404''\<rparr>)
      \<notin> doc_id ` set (contentModel (exampleDb [blank ''1'' None] []))"
    by (simp add: exampleDb_def blank_def)
  have rows: "contentModel (exampleDb [blank ''1'' None] []) = [blank ''1'' None]"
    and key: "doc_id ((blank ''7'' (Some '',x,''))\<lparr>parentId := Some ''404''\<rparr>) = ''7''"
    by (simp_all add: exampleDb_def blank_def)
  from executeCreateContentFlow_dangling_parent [OF dangling new]
  show ?thesis unfolding rows key by simp
qed

text \<open>
  The paths that \<^verbatim>\<open>createContent\<close> writes are null or end with a comma: no working
  content that the service created has an empty \<open>parentPath\<close>, and a collection without
  one stays without one.
\<close>

lemma createContent_no_empty_path:
  assumes "createContent db c par = (Inr saved, db')"
  shows "parentPath saved \<noteq> Some []"
  using assms
  by (cases par)
    (auto simp: createContent_def newDate_def Let_def split: sum.splits if_splits)

lemma createContent_keeps_paths:
  assumes "\<forall>r \<in> set (contentModel db). parentPath r \<noteq> Some []"
  shows "\<forall>r \<in> set (contentModel (snd (createContent db c par))). parentPath r \<noteq> Some []"
  using assms
  by (cases par)
    (auto simp: createContent_def newDate_def Let_def saveNew_def split: sum.splits if_splits)

text \<open>
  C3. For every new content (its id is not taken) saved by \<^verbatim>\<open>createContent\<close>, which the
  create flow calls with the parent it looked up: with a parent \<open>p\<close>, whose own
  \<open>parentPath\<close> is null or a path as the service writes them (not the empty string), the
  saved child has the ancestors of \<open>p\<close> followed by the id of \<open>p\<close>, and as \<open>parentPath\<close> the
  \<open>parentPath\<close> of \<open>p\<close> when that is not null, a comma otherwise, followed by the id of \<open>p\<close>
  and a comma; with no parent the saved child has a null \<open>parentPath\<close> and no ancestors.
  In both cases the child is appended to the content collection.
\<close>

theorem createContent_path:
  assumes new: "doc_id c \<notin> doc_id ` set (contentModel db)"
  shows "(parentPath p \<noteq> Some [] \<longrightarrow>
          (\<exists>saved db'. createContent db c (Some p) = (Inr saved, db')
             \<and> ancestors saved = ancestors p @ [doc_id p]
             \<and> parentPath saved =
                 Some ((case parentPath p of None \<Rightarrow> '','' | Some s \<Rightarrow> s) @ doc_id p @ '','')
             \<and> parentId saved = Some (doc_id p)
             \<and> contentModel db' = contentModel db @ [saved]))
   \<and> (\<exists>saved db'. createContent db c None = (Inr saved, db')
         \<and> ancestors saved = [] \<and> parentPath saved = None \<and> parentId saved = None
         \<and> contentModel db' = contentModel db @ [saved])
   \<and> executeCreateContentFlow db c = createContent db c (getModelById db (parentId c))"
proof (intro conjI impI)
  assume wf: "parentPath p \<noteq> Some []"
  define pp where
    "pp = (case parentPath p of None \<Rightarrow> '','' | Some s \<Rightarrow> s) @ doc_id p @ '',''"
  define saved where
    "saved = c\<lparr>created := Some (clock db (ticks db)), changed := Some (clock db (Suc (ticks db))),
               parentId := Some (doc_id p), parentPath := Some pp,
               ancestors := ancestors p @ [doc_id p]\<rparr>"
  define db' where
    "db' = db\<lparr>ticks := Suc (Suc (ticks db)), contentModel := contentModel db @ [saved]\<rparr>"
  have tpl: "(if truthy (parentPath p) then template (parentPath p) @ doc_id p @ '',''
              else '','' @ doc_id p @ '','') = pp"
    using wf by (cases "parentPath p") (simp_all add: truthy_def template_def pp_def)
  have "doc_id saved = doc_id c"
    by (simp add: saved_def)
  with new have ins: "saveNew saved (contentModel db) = Inr (contentModel db @ [saved])"
    by (simp add: saveNew_fresh)
  have run: "createContent db c (Some p) = (Inr saved, db')"
    unfolding createContent_def newDate_def Let_def
    by (simp add: tpl ins [unfolded saved_def] saved_def db'_def del: append.simps)
  have "ancestors saved = ancestors p @ [doc_id p] \<and> parentPath saved = Some pp
      \<and> parentId saved = Some (doc_id p) \<and> contentModel db' = contentModel db @ [saved]"
    by (simp add: saved_def db'_def)
  with run show "\<exists>saved db'. createContent db c (Some p) = (Inr saved, db')
       \<and> ancestors saved = ancestors p @ [doc_id p]
       \<and> parentPath saved =
           Some ((case parentPath p of None \<Rightarrow> '','' | Some s \<Rightarrow> s) @ doc_id p @ '','')
       \<and> parentId saved = Some (doc_id p)
       \<and> contentModel db' = contentModel db @ [saved]"
    unfolding pp_def by blast
next
  define saved where
    "saved = c\<lparr>created := Some (clock db (ticks db)), changed := Some (clock db (Suc (ticks db))),
               parentId := None, parentPath := None, ancestors := []\<rparr>"
  define db' where
    "db' = db\<lparr>ticks := Suc (Suc (ticks db)), contentModel := contentModel db @ [saved]\<rparr>"
  have "doc_id saved = doc_id c"
    by (simp add: saved_def)
  with new have ins: "saveNew saved (contentModel db) = Inr (contentModel db @ [saved])"
    by (simp add: saveNew_fresh)
  have run: "createContent db c None = (Inr saved, db')"
    unfolding createContent_def newDate_def Let_def
    by (simp add: ins [unfolded saved_def] saved_def db'_def)
  have "ancestors saved = [] \<and> parentPath saved = None \<and> parentId saved = None
      \<and> contentModel db' = contentModel db @ [saved]"
    by (simp add: saved_def db'_def)
  with run show "\<exists>saved db'. createContent db c None = (Inr saved, db')
       \<and> ancestors saved = [] \<and> parentPath saved = None \<and> parentId saved = None
       \<and> contentModel db' = contentModel db @ [saved]"
    by blast
next
  show "executeCreateContentFlow db c = createContent db c (getModelById db (parentId c))"
    by (simp add: executeCreateContentFlow_def split: prod.splits sum.splits)
qed

theorem createContent_path_witness:
  "\<exists>saved db'.
     executeCreateContentFlow
       (exampleDb [blank ''1'' None, (blank ''7'' (Some '',1,''))\<lparr>ancestors := [''1'']\<rparr>] [])
       ((blank ''8'' None)\<lparr>parentId := Some ''7''\<rparr>) = (Inr saved, db')
     \<and> ancestors saved = [''1'', ''7''] \<and> parentPath saved = Some '',1,7,''
     \<and> parentId saved = Some ''7''
     \<and> contentModel db' =
         [blank ''1'' None, (blank ''7'' (Some '',1,''))\<lparr>ancestors := [''1'']\<rparr>, saved]"
proof -
  let ?p = "(blank ''7'' (Some '',1,''))\<lparr>ancestors := [''1'']\<rparr>"
  let ?db = "exampleDb [blank ''1'' None, ?p] []"
  let ?c = "(blank ''8'' None)\<lparr>parentId := Some ''7''\<rparr>"
  have new: "doc_id ?c \<notin> doc_id ` set (contentModel ?db)"
    by (simp add: exampleDb_def blank_def)
  have wf: "parentPath ?p \<noteq> Some []"
    by (simp add: blank_def)
  have found: "getModelById ?db (parentId ?c) = Some ?p"
    by (simp add: getModelById_def findOne_def exampleDb_def blank_def)
  have rows: "contentModel ?db = [blank ''1'' None, ?p]"
    by (simp add: exampleDb_def)
  have vals: "ancestors ?p @ [doc_id ?p] = [''1'', ''7'']"
    "(case parentPath ?p of None \<Rightarrow> '','' | Some s \<Rightarrow> s) @ doc_id ?p @ '','' = '',1,7,''"
    "doc_id ?p = ''7''"
    by (simp_all add: blank_def)
  note t = createContent_path [OF new, of ?p]
  from t wf have made: "\<exists>saved db'. createContent ?db ?c (Some ?p) = (Inr saved, db')
      \<and> ancestors saved = ancestors ?p @ [doc_id ?p]
      \<and> parentPath saved =
          Some ((case parentPath ?p of None \<Rightarrow> '','' | Some s \<Rightarrow> s) @ doc_id ?p @ '','')
      \<and> parentId saved = Some (doc_id ?p)
      \<and> contentModel db' = contentModel ?db @ [saved]"
    by blast
  from t have flow: "executeCreateContentFlow ?db ?c = createContent ?db ?c (getModelById ?db (parentId ?c))"
    by blast
  from made show ?thesis
    unfolding flow found rows vals by (simp add: blank_def)
qed

subsection \<open>Publishing\<close>

lemma findOneAndDelete_distinct:
  "distinct (map doc_id rows) \<Longrightarrow>
   snd (findOneAndDelete k rows) = filter (\<lambda>r. doc_id r \<noteq> k) rows"
proof (induction rows)
  case Nil
  then show ?case by simp
next
  case (Cons r rs)
  show ?case
  proof (cases "doc_id r = k")
    case True
    with Cons.prems have "\<forall>x \<in> set rs. doc_id x \<noteq> k"
      by (auto simp: image_iff)
    then have "filter (\<lambda>r. doc_id r \<noteq> k) rs = rs"
      by (simp add: filter_id_conv)
    with True show ?thesis by simp
  next
    case False
    with Cons show ?thesis by (simp add: split_beta)
  qed
qed

text \<open>
  C2. A call of \<^verbatim>\<open>executePublishContentFlow\<close>, when the generated object id is fresh
  among the versions and the ids of the published collection are unique (as the ids of a
  collection are), does not fail and inserts exactly one row into the content versions:
  the just-published content under the generated id, with \<open>contentId\<close> the id of the
  content. Afterwards the published collection is the rows of the other ids, as they
  were, followed by the row the call returns: the just-published content with
  \<open>contentId\<close> and the id of the version just created as \<open>contentVersionId\<close>. A row that
  was there for the id of the content is deleted before the insert, which a taken id
  would have the store reject; there is exactly one row with that id afterwards, and the
  ids are unique again.
\<close>

theorem executePublishContentFlow_rows:
  assumes fresh: "objectIds db (made db) \<notin> doc_id ` set (contentVersionModel db)"
      and uniq: "distinct (map doc_id (publishedContentModel db))"
  shows "\<exists>p v db'. executePublishContentFlow db c = (Inr p, db')
     \<and> contentVersionModel db' = contentVersionModel db @ [v]
     \<and> Content.truncate v =
         c\<lparr>doc_id := objectIds db (made db), isPublished := True,
           published := Some (clock db (ticks db))\<rparr>
     \<and> contentId v = doc_id c
     \<and> publishedContentModel db' =
         filter (\<lambda>r. doc_id r \<noteq> doc_id c) (publishedContentModel db) @ [p]
     \<and> filter (\<lambda>r. doc_id r = doc_id c) (publishedContentModel db') = [p]
     \<and> Content.truncate p = c\<lparr>isPublished := True, published := Some (clock db (ticks db))\<rparr>
     \<and> contentId p = doc_id c \<and> contentVersionId p = doc_id v
     \<and> filter (\<lambda>r. doc_id r \<noteq> doc_id c) (publishedContentModel db') =
         filter (\<lambda>r. doc_id r \<noteq> doc_id c) (publishedContentModel db)
     \<and> distinct (map doc_id (publishedContentModel db'))"
proof -
  define u where "u = c\<lparr>isPublished := True, published := Some (clock db (ticks db))\<rparr>"
  define db1 where "db1 = inContentModel (save u) (db\<lparr>ticks := Suc (ticks db)\<rparr>)"
  define i where "i = objectIds db (made db)"
  define v :: ContentVersion where
    "v = \<lparr>doc_id = i, name = name u, properties = properties u, parentId = parentId u,
          parentPath = parentPath u, ancestors = ancestors u, childItems = childItems u,
          publishedChildItems = publishedChildItems u, hasChildren = hasChildren u,
          isPublished = isPublished u, isDirty = isDirty u, created = created u,
          changed = changed u, published = published u, deleted = deleted u,
          isDeleted = isDeleted u, contentId = doc_id u\<rparr>"
  define db2 where
    "db2 = db1\<lparr>made := Suc (made db1), contentVersionModel := contentVersionModel db @ [v]\<rparr>"
  define p :: PublishedContent where
    "p = \<lparr>doc_id = doc_id u, name = name u, properties = properties u, parentId = parentId u,
          parentPath = parentPath u, ancestors = ancestors u, childItems = childItems u,
          publishedChildItems = publishedChildItems u, hasChildren = hasChildren u,
          isPublished = isPublished u, isDirty = isDirty u, created = created u,
          changed = changed u, published = published u, deleted = deleted u,
          isDeleted = isDeleted u, contentId = doc_id u, contentVersionId = doc_id v\<rparr>"
  define rows where "rows = filter (\<lambda>r. doc_id r \<noteq> doc_id c) (publishedContentModel db)"
  define db3 where "db3 = db2\<lparr>publishedContentModel := rows @ [p]\<rparr>"
  have ids: "doc_id u = doc_id c" "doc_id v = i" "doc_id p = doc_id c"
    by (simp_all add: u_def v_def p_def)
  have s1: "publishContent db c = (u, db1)"
    by (simp add: publishContent_def newDate_def Let_def u_def db1_def)
  have state1: "made db1 = made db" "objectIds db1 = objectIds db"
    "contentVersionModel db1 = contentVersionModel db"
    "publishedContentModel db1 = publishedContentModel db"
    by (simp_all add: db1_def inContentModel_def)
  from fresh have "saveNew v (contentVersionModel db) = Inr (contentVersionModel db @ [v])"
    by (simp add: saveNew_fresh ids i_def)
  then have s2: "createPageVersion db1 u = (Inr v, db2)"
    unfolding createPageVersion_def newObjectId_def Let_def
    by (simp add: state1 v_def [symmetric, unfolded i_def] db2_def)
  have old: "publishedContentModel db2 = publishedContentModel db"
    by (simp add: db2_def state1)
  have gone: "snd (findOneAndDelete (doc_id u) (publishedContentModel db2)) = rows"
    using findOneAndDelete_distinct [OF uniq, of "doc_id c"] by (simp add: rows_def old ids)
  have absent: "doc_id p \<notin> doc_id ` set rows"
    by (auto simp: rows_def ids)
  then have ins: "saveNew p rows = Inr (rows @ [p])"
    by (rule saveNew_fresh)
  have s3: "createPublishedContent db2 u (doc_id v) = (Inr p, db3)"
    unfolding createPublishedContent_def Let_def split_beta gone
    by (simp add: p_def [symmetric] ins db3_def)
  have run: "executePublishContentFlow db c = (Inr p, db3)"
    by (simp add: executePublishContentFlow_def s1 s2 s3)
  have versions: "contentVersionModel db3 = contentVersionModel db @ [v]"
    by (simp add: db3_def db2_def)
  have new: "publishedContentModel db3 = rows @ [p]"
    by (simp add: db3_def)
  have none: "filter (\<lambda>r. doc_id r = doc_id c) rows = []"
    and all: "filter (\<lambda>r. doc_id r \<noteq> doc_id c) rows = rows"
    by (simp_all add: rows_def filter_empty_conv)
  have one: "filter (\<lambda>r. doc_id r = doc_id c) (publishedContentModel db3) = [p]"
    by (simp add: new none ids)
  have others: "filter (\<lambda>r. doc_id r \<noteq> doc_id c) (publishedContentModel db3) = rows"
    by (simp add: new all ids)
  have "distinct (map doc_id rows)"
    using uniq by (simp add: rows_def distinct_map_filter)
  with absent have still: "distinct (map doc_id (publishedContentModel db3))"
    by (simp add: new)
  have tv: "Content.truncate v = c\<lparr>doc_id := objectIds db (made db), isPublished := True,
      published := Some (clock db (ticks db))\<rparr>"
    by (simp add: Content.truncate_def v_def u_def i_def)
  have tp: "Content.truncate p = c\<lparr>isPublished := True, published := Some (clock db (ticks db))\<rparr>"
    by (simp add: Content.truncate_def p_def u_def)
  have refs: "contentId v = doc_id c" "contentId p = doc_id c" "contentVersionId p = doc_id v"
    by (simp_all add: v_def p_def u_def)
  from run versions tv refs new one tp others still show ?thesis
    unfolding rows_def by blast
qed

theorem executePublishContentFlow_rows_witness:
  "\<exists>p v db'.
     executePublishContentFlow
       (exampleDb [blank ''1'' None]
          [publishedOf (blank ''1'' None) ''old'', publishedOf (blank ''2'' None) ''w''])
       (blank ''1'' None) = (Inr p, db')
     \<and> contentVersionModel db' = [v] \<and> doc_id v = ''v'' \<and> contentId v = ''1''
     \<and> publishedContentModel db' = [publishedOf (blank ''2'' None) ''w'', p]
     \<and> doc_id p = ''1'' \<and> contentVersionId p = ''v'' \<and> published p = Some 100"
proof -
  let ?db = "exampleDb [blank ''1'' None]
      [publishedOf (blank ''1'' None) ''old'', publishedOf (blank ''2'' None) ''w'']"
  have fresh: "objectIds ?db (made ?db) \<notin> doc_id ` set (contentVersionModel ?db)"
    by (simp add: exampleDb_def)
  have uniq: "distinct (map doc_id (publishedContentModel ?db))"
    by (simp add: exampleDb_def publishedOf_def blank_def)
  from executePublishContentFlow_rows [OF fresh uniq, of "blank ''1'' None"]
  obtain p v db' where run: "executePublishContentFlow ?db (blank ''1'' None) = (Inr p, db')"
    and vs: "contentVersionModel db' = contentVersionModel ?db @ [v]"
    and tv: "Content.truncate v = (blank ''1'' None)\<lparr>doc_id := objectIds ?db (made ?db),
        isPublished := True, published := Some (clock ?db (ticks ?db))\<rparr>"
    and cv: "contentId v = doc_id (blank ''1'' None)"
    and ps: "publishedContentModel db' =
        filter (\<lambda>r. doc_id r \<noteq> doc_id (blank ''1'' None)) (publishedContentModel ?db) @ [p]"
    and tp: "Content.truncate p = (blank ''1'' None)\<lparr>isPublished := True,
        published := Some (clock ?db (ticks ?db))\<rparr>"
    and pv: "contentVersionId p = doc_id v"
    by blast
  from tv have "doc_id (Content.truncate v) = ''v''"
    by (simp add: exampleDb_def)
  then have iv: "doc_id v = ''v''"
    by (simp add: Content.truncate_def)
  from tp have "published (Content.truncate p) = Some 100 \<and> doc_id (Content.truncate p) = ''1''"
    by (simp add: exampleDb_def blank_def)
  then have pp: "published p = Some 100" "doc_id p = ''1''"
    by (simp_all add: Content.truncate_def)
  from vs have vs': "contentVersionModel db' = [v]"
    by (simp add: exampleDb_def)
  from ps have ps': "publishedContentModel db' = [publishedOf (blank ''2'' None) ''w'', p]"
    by (simp add: exampleDb_def publishedOf_def blank_def)
  from cv have "contentId v = ''1''"
    by (simp add: blank_def)
  with run vs' iv pv pp ps' show ?thesis
    by auto
qed

subsection \<open>Updating and publishing\<close>

lemma executePublishContentFlow_made:
  "made (snd (executePublishContentFlow db c)) = Suc (made db)"
  by (simp add: executePublishContentFlow_def publishContent_def createPageVersion_def
      createPublishedContent_def newDate_def newObjectId_def inContentModel_def Let_def
      split_beta split: sum.splits)

text \<open>
  C4. In \<^verbatim>\<open>updateAndPublishContent\<close> on an id that is found, let \<open>current\<close> be the content
  the test reads (the loaded content, after the update when the incoming content is
  dirty) and \<open>db1\<close> the database at that point. The publish sub-flow runs if and only if
  the incoming content has \<open>isPublished\<close> and \<open>current\<close> was never published or its
  \<open>changed\<close> time is strictly greater than its \<open>published\<close> time: then the call is the
  sub-flow on \<open>current\<close> and one version id is generated; otherwise the call resolves to
  \<open>current\<close>, no version id is generated and the content versions and the published
  content are as they were.
\<close>

theorem updateAndPublishContent_publish_condition:
  assumes found: "getModelById db (Some i) = Some loaded"
    and cur: "current =
      (if isDirty incoming
       then loaded\<lparr>changed := Some (clock db (ticks db)), name := name incoming,
              properties := properties incoming, childItems := childItems incoming,
              publishedChildItems := getPublishedChildItems (childItems incoming)\<rparr>
       else loaded)"
    and db1: "db1 =
      (if isDirty incoming then inContentModel (save current) (db\<lparr>ticks := Suc (ticks db)\<rparr>)
       else db)"
    and due: "due =
      (isPublished incoming \<and>
       (case published current of
          None \<Rightarrow> True
        | Some p \<Rightarrow> (case changed current of None \<Rightarrow> False | Some c \<Rightarrow> p < c)))"
  shows "updateAndPublishContent db i incoming =
           (if due
            then (case executePublishContentFlow db1 current of
                    (Inl e, db2) \<Rightarrow> (Inl e, db2)
                  | (Inr p, db2) \<Rightarrow> (Inr (Some (Published p)), db2))
            else (Inr (Some (Working current)), db1))
         \<and> made (snd (updateAndPublishContent db i incoming)) =
             made db + (if due then 1 else 0)
         \<and> (\<not> due \<longrightarrow>
              contentVersionModel (snd (updateAndPublishContent db i incoming)) =
                contentVersionModel db
              \<and> publishedContentModel (snd (updateAndPublishContent db i incoming)) =
                  publishedContentModel db)"
proof -
  have step: "(if isDirty incoming
               then (case updateContent db (Some loaded) incoming of
                       (Inl e, d) \<Rightarrow> (Inl e, d)
                     | (Inr c, d) \<Rightarrow> (Inr (Some c), d))
               else (Inr (Some loaded), db)) = (Inr (Some current), db1)"
    by (simp add: updateContent_def newDate_def Let_def cur db1)
  have test: "(published current = None \<or> date_gt (changed current) (published current)) =
      (case published current of
         None \<Rightarrow> True
       | Some p \<Rightarrow> (case changed current of None \<Rightarrow> False | Some c \<Rightarrow> p < c))"
    by (simp add: date_gt_def toNumber_def split: option.splits)
  have run: "updateAndPublishContent db i incoming =
           (if due
            then (case executePublishContentFlow db1 current of
                    (Inl e, db2) \<Rightarrow> (Inl e, db2)
                  | (Inr p, db2) \<Rightarrow> (Inr (Some (Published p)), db2))
            else (Inr (Some (Working current)), db1))"
    unfolding updateAndPublishContent_def found Let_def step
    by (simp add: test due)
  have keep: "made db1 = made db" "contentVersionModel db1 = contentVersionModel db"
    "publishedContentModel db1 = publishedContentModel db"
    by (simp_all add: db1 inContentModel_def)
  have count: "made (snd (updateAndPublishContent db i incoming)) =
      made db + (if due then 1 else 0)"
    using executePublishContentFlow_made [of db1 current]
    by (auto simp: run keep split: prod.splits sum.splits)
  have rest: "\<not> due \<longrightarrow>
      contentVersionModel (snd (updateAndPublishContent db i incoming)) = contentVersionModel db
      \<and> publishedContentModel (snd (updateAndPublishContent db i incoming)) =
          publishedContentModel db"
    by (simp add: run keep)
  from run count rest show ?thesis
    by blast
qed

theorem updateAndPublishContent_publish_condition_witness:
  "made (snd (updateAndPublishContent (exampleDb [blank ''1'' None] []) ''1''
       ((blank ''x'' None)\<lparr>isDirty := True, isPublished := True\<rparr>))) = 1
   \<and> updateAndPublishContent
         (exampleDb [(blank ''1'' None)\<lparr>changed := Some 150, published := Some 200\<rparr>] []) ''1''
         ((blank ''x'' None)\<lparr>isPublished := True\<rparr>) =
       (Inr (Some (Working ((blank ''1'' None)\<lparr>changed := Some 150, published := Some 200\<rparr>))),
        exampleDb [(blank ''1'' None)\<lparr>changed := Some 150, published := Some 200\<rparr>] [])"
proof -
  have f1: "getModelById (exampleDb [blank ''1'' None] []) (Some ''1'') = Some (blank ''1'' None)"
    by (simp add: getModelById_def findOne_def exampleDb_def blank_def)
  have f2: "getModelById
      (exampleDb [(blank ''1'' None)\<lparr>changed := Some 150, published := Some 200\<rparr>] [])
      (Some ''1'') = Some ((blank ''1'' None)\<lparr>changed := Some 150, published := Some 200\<rparr>)"
    by (simp add: getModelById_def findOne_def exampleDb_def blank_def)
  have a: "made (snd (updateAndPublishContent (exampleDb [blank ''1'' None] []) ''1''
       ((blank ''x'' None)\<lparr>isDirty := True, isPublished := True\<rparr>))) = 1"
    using updateAndPublishContent_publish_condition [OF f1 refl refl refl,
        of "(blank ''x'' None)\<lparr>isDirty := True, isPublished := True\<rparr>",
        THEN conjunct2, THEN conjunct1]
    by (simp add: exampleDb_def blank_def)
  have b: "updateAndPublishContent
         (exampleDb [(blank ''1'' None)\<lparr>changed := Some 150, published := Some 200\<rparr>] []) ''1''
         ((blank ''x'' None)\<lparr>isPublished := True\<rparr>) =
       (Inr (Some (Working ((blank ''1'' None)\<lparr>changed := Some 150, published := Some 200\<rparr>))),
        exampleDb [(blank ''1'' None)\<lparr>changed := Some 150, published := Some 200\<rparr>] [])"
    using updateAndPublishContent_publish_condition [OF f2 refl refl refl,
        of "(blank ''x'' None)\<lparr>isPublished := True\<rparr>", THEN conjunct1]
    by (simp add: blank_def)
  from a b show ?thesis by blast
qed

subsection \<open>Deleting\<close>

text \<open>
  The condition of the bulk update, for a content \<open>c\<close>: the parent path of the document
  starts with the text that the template literal makes of the parent path of \<open>c\<close>,
  followed by the id of \<open>c\<close> and a comma.
\<close>

lemma startWithParentPathRegExp_test:
  "parentPathRegex (startWithParentPathRegExp c) r =
     (case parentPath r of
        None \<Rightarrow> False
      | Some s \<Rightarrow> startsWith (template (parentPath c) @ doc_id c @ '','') s)"
  by (simp add: parentPathRegex_def startWithParentPathRegExp_def regExpTest_def
      split: option.splits)

text \<open>
  The content that is deleted never meets the condition built from it: its own parent
  path is shorter than the text of the pattern. Its save and the bulk update touch
  different documents.
\<close>

lemma startsWith_append_self: "startsWith (p @ q) p \<Longrightarrow> q = []"
  by (induction p) (auto elim: startsWith.elims)

lemma own_path_not_matched: "\<not> parentPathRegex (startWithParentPathRegExp c) c"
proof (cases "parentPath c")
  case None
  then show ?thesis by (simp add: parentPathRegex_def)
next
  case (Some pp)
  have "\<not> startsWith (pp @ (doc_id c @ '','')) pp"
    using startsWith_append_self [of pp "doc_id c @ '',''"] by auto
  with Some show ?thesis
    by (simp add: startWithParentPathRegExp_test template_def)
qed

text \<open>
  For a root the text starts with the letters \<^verbatim>\<open>null\<close>, and the path that \<^verbatim>\<open>createContent\<close>
  gives a child of a root starts with a comma: the condition holds of no such child.
\<close>

lemma root_pattern_misses_children:
  assumes "parentPath c = None" and "parentPath r = Some (CHR '','' # rest)"
  shows "\<not> parentPathRegex (startWithParentPathRegExp c) r"
  using assms by (simp add: startWithParentPathRegExp_test template_def)

text \<open>
  C1, on the code. The node with id 1 is a root (its \<open>parentPath\<close> is null), the node
  with id 12 is its child (\<open>parentPath\<close> \<^verbatim>\<open>,1,\<close>) and the node with id 2 another root.
  The specification has the delete flow on 1 mark the child deleted and leave the
  sibling alone.
  The pattern the flow builds for a root is \<^verbatim>\<open>^null1,\<close> (the template literal writes the
  null parent path as text): the bulk update matches no document, the child stays
  undeleted, and so does the sibling.
\<close>

theorem executeDeleteContentFlow_root_keeps_child:
  "startWithParentPathRegExp (blank ''1'' None) = ''^null1,''
   \<and> (case executeDeleteContentFlow
            (exampleDb [blank ''1'' None, blank ''12'' (Some '',1,''), blank ''2'' None]
               [publishedOf (blank ''1'' None) ''v0'']) ''1'' of
        (r, db') \<Rightarrow>
          (case r of Inl e \<Rightarrow> False | Inr (a, n) \<Rightarrow> doc_id a = ''1'' \<and> isDeleted a \<and> n = 0)
          \<and> map (\<lambda>c. (doc_id c, isDeleted c)) (contentModel db') =
              [(''1'', True), (''12'', False), (''2'', False)])"
  by (simp add: executeDeleteContentFlow_def getModelById_def findOne_def softDeleteContent_def
      softDeleteContentChildren_def startWithParentPathRegExp_def parentPathRegex_def
      regExpTest_def updateMany_def template_def newDate_def inContentModel_def
      inPublishedContentModel_def exampleDb_def blank_def publishedOf_def Let_def)

text \<open>
  C6, on the code. The node with id 12 has a descendant and no published counterpart.
  The specification has the delete flow complete successfully. The flow marks the node and its
  descendant deleted, and then rejects: \<^verbatim>\<open>softDeletePublishedContent\<close> hands the \<^verbatim>\<open>null\<close>
  that \<^verbatim>\<open>findOne\<close> returned to \<^verbatim>\<open>softDeleteContent\<close>, which stores into a property of it.
\<close>

theorem executeDeleteContentFlow_unpublished_rejects:
  "(case executeDeleteContentFlow
          (exampleDb [blank ''1'' None, blank ''12'' (Some '',1,''),
             blank ''123'' (Some '',1,12,'')] []) ''12'' of
      (r, db') \<Rightarrow>
        r = Inl TypeError
        \<and> map (\<lambda>c. (doc_id c, isDeleted c)) (contentModel db') =
            [(''1'', False), (''12'', True), (''123'', True)]
        \<and> publishedContentModel db' = [])"
  by (simp add: executeDeleteContentFlow_def getModelById_def findOne_def softDeleteContent_def
      softDeleteContentChildren_def startWithParentPathRegExp_def parentPathRegex_def
      regExpTest_def updateMany_def template_def newDate_def inContentModel_def
      inPublishedContentModel_def exampleDb_def blank_def Let_def)

text \<open>
  C7, on the code. No content has the id 404. The specification has both flows fail
  with NotFound and write nothing. Nothing is written, but neither flow tests what the read
  by id returned: \<^verbatim>\<open>updateAndPublishContent\<close> resolves to \<^verbatim>\<open>null\<close> when the incoming
  content is neither dirty nor to be published, and throws a type error on the \<^verbatim>\<open>null\<close>
  otherwise; \<^verbatim>\<open>executeDeleteContentFlow\<close> throws the type error.
\<close>

theorem missing_content_is_not_NotFound:
  "getModelById (exampleDb [blank ''1'' None] []) (Some ''404'') = None
   \<and> updateAndPublishContent (exampleDb [blank ''1'' None] []) ''404'' (blank ''x'' None) =
       (Inr None, exampleDb [blank ''1'' None] [])
   \<and> fst (updateAndPublishContent (exampleDb [blank ''1'' None] []) ''404''
            ((blank ''x'' None)\<lparr>isPublished := True\<rparr>)) = Inl TypeError
   \<and> fst (updateAndPublishContent (exampleDb [blank ''1'' None] []) ''404''
            ((blank ''x'' None)\<lparr>isDirty := True\<rparr>)) = Inl TypeError
   \<and> fst (executeDeleteContentFlow (exampleDb [blank ''1'' None] []) ''404'') = Inl TypeError
   \<and> contentModel (snd (executeDeleteContentFlow (exampleDb [blank ''1'' None] []) ''404'')) =
       [blank ''1'' None]"
  by (simp add: updateAndPublishContent_def executeDeleteContentFlow_def getModelById_def
      findOne_def updateContent_def softDeleteContent_def newDate_def exampleDb_def blank_def
      Let_def)

end
